theory Spec2Isabelle
  imports Main
begin

section \<open>The cafe directory service of main.py\<close>

text \<open>
  The service keeps one table, \<open>cafes\<close>, and answers seven routes. Each route handler
  of main.py is a function here that takes its parameters and the table and returns what
  the handler returns or raises, together with the table afterwards.

  What the model fixes about the libraries under the handlers:
  \<^item> the table is the list of its rows in the order a plain \<open>select(Cafe)\<close> yields them
    (SQLite scans a rowid table by ascending \<open>id\<close>; a row inserted with the next free id
    is therefore the last of the list);
  \<^item> \<open>id\<close> is the primary key and \<open>name\<close> carries a UNIQUE constraint; an INSERT that
    breaks the constraint raises \<open>IntegrityError\<close> inside \<open>db.commit()\<close>, nothing is
    written, and the session that \<open>get_db\<close> closes rolls back;
  \<^item> text is compared byte for byte (SQLite's default BINARY collation);
  \<^item> OFFSET and LIMIT follow SQLite: a negative OFFSET counts as zero, a negative LIMIT
    is no limit;
  \<^item> FastAPI turns \<open>HTTPException(status_code=s)\<close> into a response with status \<open>s\<close>, a
    request body that fails its pydantic model into status 422, and any other exception
    (of the handler, of the driver, or of the validation of what the handler returns
    against the route's \<open>response_model\<close>) into status 500;
  \<^item> integers are Python's unbounded ones; the sqlite3 driver binds an integer parameter
    as a signed 64-bit value and raises \<open>OverflowError\<close> for one that does not fit. (The
    id SQLite picks once the largest 64-bit id is in use is outside the model.)
\<close>

subsection \<open>Errors a request can end with\<close>

datatype error =
    HTTPException nat string
  | RequestValidationError "string list"
  | ResponseValidationError
  | IntegrityError
  | OverflowError

fun status_code :: "error \<Rightarrow> nat" where
  "status_code (HTTPException code detail) = code"
| "status_code (RequestValidationError missing) = 422"
| "status_code ResponseValidationError = 500"
| "status_code IntegrityError = 500"
| "status_code OverflowError = 500"

definition client_error :: "error \<Rightarrow> bool" where
  "client_error e = (400 \<le> status_code e \<and> status_code e < 500)"

subsection \<open>The pydantic models\<close>

text \<open>
  \<open>CafeBase\<close> declares ten fields, none with a default, so each is required;
  \<open>CafeCreate\<close> adds nothing and \<open>CafeResponse\<close> adds \<open>id\<close>.
\<close>

record CafeBase =
  name :: string
  map_url :: string
  img_url :: string
  location :: string
  seats :: string
  has_toilet :: bool
  has_wifi :: bool
  has_sockets :: bool
  can_take_calls :: bool
  coffee_price :: string

type_synonym CafeCreate = CafeBase

record CafeResponse = CafeBase +
  id' :: int

text \<open>
  The JSON object a client posts to \<open>/add\<close>, read key by key: \<open>None\<close> where the key is
  absent, \<open>Some v\<close> where it is present with a value \<open>v\<close> of the declared type. (What
  pydantic does with a value of another type is outside the model.)
\<close>

record body =
  name :: "string option"
  map_url :: "string option"
  img_url :: "string option"
  location :: "string option"
  seats :: "string option"
  has_toilet :: "bool option"
  has_wifi :: "bool option"
  has_sockets :: "bool option"
  can_take_calls :: "bool option"
  coffee_price :: "string option"

definition absent :: "string \<Rightarrow> 'a option \<Rightarrow> string list" where
  "absent field v = (case v of None \<Rightarrow> [field] | Some x \<Rightarrow> [])"

definition missing_fields :: "body \<Rightarrow> string list" where
  "missing_fields b =
     absent ''name'' (body.name b) @
     absent ''map_url'' (body.map_url b) @
     absent ''img_url'' (body.img_url b) @
     absent ''location'' (body.location b) @
     absent ''seats'' (body.seats b) @
     absent ''has_toilet'' (body.has_toilet b) @
     absent ''has_wifi'' (body.has_wifi b) @
     absent ''has_sockets'' (body.has_sockets b) @
     absent ''can_take_calls'' (body.can_take_calls b) @
     absent ''coffee_price'' (body.coffee_price b)"

text \<open>Validation of a request body against \<open>CafeCreate\<close>.\<close>

definition CafeCreate_validate :: "body \<Rightarrow> error + CafeCreate" where
  "CafeCreate_validate b =
     (if missing_fields b \<noteq> [] then Inl (RequestValidationError (missing_fields b))
      else Inr \<lparr>CafeBase.name = the (body.name b),
                CafeBase.map_url = the (body.map_url b),
                CafeBase.img_url = the (body.img_url b),
                CafeBase.location = the (body.location b),
                CafeBase.seats = the (body.seats b),
                CafeBase.has_toilet = the (body.has_toilet b),
                CafeBase.has_wifi = the (body.has_wifi b),
                CafeBase.has_sockets = the (body.has_sockets b),
                CafeBase.can_take_calls = the (body.can_take_calls b),
                CafeBase.coffee_price = the (body.coffee_price b)\<rparr>)"

subsection \<open>The table\<close>

text \<open>
  A row of \<open>cafes\<close>. Every column is NOT NULL but \<open>coffee_price\<close>, which is
  \<open>nullable=True\<close>. (The column \<open>id\<close> is written \<open>id'\<close>: \<open>id\<close> is HOL's identity.)
\<close>

record Cafe =
  id' :: int
  name :: string
  map_url :: string
  img_url :: string
  location :: string
  seats :: string
  has_toilet :: bool
  has_wifi :: bool
  has_sockets :: bool
  can_take_calls :: bool
  coffee_price :: "string option"

type_synonym store = "Cafe list"

text \<open>What a handler leaves behind: its result or the error it raised, and the table.\<close>

type_synonym 'a outcome = "(error + 'a) \<times> store"

text \<open>The constraints the table's declaration puts on its rows.\<close>

definition primary_key :: "store \<Rightarrow> bool" where
  "primary_key db = distinct (map id' db)"

definition unique_name :: "store \<Rightarrow> bool" where
  "unique_name db = distinct (map name db)"

text \<open>
  The integers the sqlite3 driver can bind to a statement: those of 64 bits, signed. For
  any other it raises \<open>OverflowError\<close> before the statement runs.
\<close>

definition sqlite_int :: "int \<Rightarrow> bool" where
  "sqlite_int n = (- (2 ^ 63) \<le> n \<and> n < 2 ^ 63)"

text \<open>
  \<open>select(Cafe)...scalars().all()\<close>, and the OFFSET and LIMIT clauses, whose values are
  bound parameters.
\<close>

definition select_Cafe :: "store \<Rightarrow> Cafe list" where
  "select_Cafe db = db"

definition sql_offset :: "int \<Rightarrow> Cafe list \<Rightarrow> error + Cafe list" where
  "sql_offset n rows = (if sqlite_int n then Inr (drop (nat n) rows) else Inl OverflowError)"

definition sql_limit :: "int \<Rightarrow> Cafe list \<Rightarrow> error + Cafe list" where
  "sql_limit n rows =
     (if \<not> sqlite_int n then Inl OverflowError
      else if n < 0 then Inr rows else Inr (take (nat n) rows))"

text \<open>
  \<open>db.query(Cafe).filter(Cafe.id == cafe_id).first()\<close>: the row or \<open>None\<close>; \<open>cafe_id\<close> is
  a bound parameter.
\<close>

definition query_first :: "int \<Rightarrow> store \<Rightarrow> error + Cafe option" where
  "query_first cafe_id db =
     (if sqlite_int cafe_id then Inr (find (\<lambda>c. id' c = cafe_id) db) else Inl OverflowError)"

text \<open>
  The id SQLite gives a row inserted without one: 1 in an empty table, otherwise one more
  than the largest id in use.
\<close>

definition next_id :: "store \<Rightarrow> int" where
  "next_id db = (if db = [] then 1 else Max (set (map id' db)) + 1)"

text \<open>\<open>Cafe(**cafe.dict())\<close>, with the id the INSERT assigns.\<close>

definition Cafe_of :: "CafeCreate \<Rightarrow> int \<Rightarrow> Cafe" where
  "Cafe_of cafe i =
     \<lparr>id' = i,
      name = CafeBase.name cafe,
      map_url = CafeBase.map_url cafe,
      img_url = CafeBase.img_url cafe,
      location = CafeBase.location cafe,
      seats = CafeBase.seats cafe,
      has_toilet = CafeBase.has_toilet cafe,
      has_wifi = CafeBase.has_wifi cafe,
      has_sockets = CafeBase.has_sockets cafe,
      can_take_calls = CafeBase.can_take_calls cafe,
      coffee_price = Some (CafeBase.coffee_price cafe)\<rparr>"

text \<open>
  \<open>db.add(new_cafe); db.commit(); db.refresh(new_cafe)\<close>: the INSERT, refused when the
  name is taken, and the row as the table then holds it.
\<close>

definition insert_commit :: "CafeCreate \<Rightarrow> store \<Rightarrow> error + (Cafe \<times> store)" where
  "insert_commit cafe db =
     (if CafeBase.name cafe \<in> set (map name db) then Inl IntegrityError
      else let new_cafe = Cafe_of cafe (next_id db) in Inr (new_cafe, db @ [new_cafe]))"

text \<open>\<open>UPDATE cafes SET coffee_price=? WHERE cafes.id = ?\<close> and \<open>DELETE ... WHERE cafes.id = ?\<close>.\<close>

definition update_commit :: "int \<Rightarrow> string \<Rightarrow> store \<Rightarrow> store" where
  "update_commit i new_price db =
     map (\<lambda>c. if id' c = i then c\<lparr>coffee_price := Some new_price\<rparr> else c) db"

definition delete_commit :: "int \<Rightarrow> store \<Rightarrow> store" where
  "delete_commit i db = filter (\<lambda>c. id' c \<noteq> i) db"

subsection \<open>Strings and random choice\<close>

text \<open>
  Python's \<open>s.strip(chars)\<close>: the leading and the trailing characters of \<open>s\<close> that occur in
  \<open>chars\<close> are removed. The handler strips the two quote characters, \<open>'\<close> (0x27) and
  the double quote (0x22); both are ASCII, so stripping bytes and stripping code points
  agree on UTF-8 text.
\<close>

definition strip :: "string \<Rightarrow> string \<Rightarrow> string" where
  "strip chars s =
     rev (dropWhile (\<lambda>c. c \<in> set chars) (rev (dropWhile (\<lambda>c. c \<in> set chars) s)))"

definition quotes :: string where
  "quotes = [CHR 0x27, CHR 0x22]"

text \<open>
  \<open>random.choice(seq)\<close> returns \<open>seq[i]\<close> for an index \<open>i\<close> below \<open>len(seq)\<close> that the
  generator draws; \<open>r\<close> is the generator's draw, reduced to an index. On the empty list
  Python raises; the handler asks for a choice only from a list it found non-empty.
\<close>

definition choice :: "nat \<Rightarrow> 'a list \<Rightarrow> 'a option" where
  "choice r seq = (if seq = [] then None else Some (seq ! (r mod length seq)))"

subsection \<open>The response models\<close>

text \<open>
  \<open>response_model=CafeResponse\<close>: what the handler returns is read into \<open>CafeResponse\<close>,
  whose \<open>coffee_price\<close> is a \<open>str\<close>; a row whose price is NULL does not pass, and the
  request ends with \<open>ResponseValidationError\<close>. Whatever the handler committed before
  stays committed.
\<close>

definition CafeResponse_validate :: "Cafe \<Rightarrow> error + CafeResponse" where
  "CafeResponse_validate c =
     (case coffee_price c of
        None \<Rightarrow> Inl ResponseValidationError
      | Some price \<Rightarrow>
          Inr \<lparr>CafeBase.name = name c,
               CafeBase.map_url = map_url c,
               CafeBase.img_url = img_url c,
               CafeBase.location = location c,
               CafeBase.seats = seats c,
               CafeBase.has_toilet = has_toilet c,
               CafeBase.has_wifi = has_wifi c,
               CafeBase.has_sockets = has_sockets c,
               CafeBase.can_take_calls = can_take_calls c,
               CafeBase.coffee_price = price,
               CafeResponse.id' = id' c\<rparr>)"

text \<open>\<open>response_model=List[CafeResponse]\<close>: every row of the list has to pass.\<close>

fun CafeResponse_list :: "Cafe list \<Rightarrow> error + CafeResponse list" where
  "CafeResponse_list [] = Inr []"
| "CafeResponse_list (c # cs) =
     (case CafeResponse_validate c of
        Inl e \<Rightarrow> Inl e
      | Inr r \<Rightarrow>
          (case CafeResponse_list cs of
             Inl e \<Rightarrow> Inl e
           | Inr rs \<Rightarrow> Inr (r # rs)))"

subsection \<open>The routes\<close>

text \<open>
  Each route is its handler's body followed by the validation of the returned value
  against the \<open>response_model\<close> of the decorator.
\<close>

definition read_cafes :: "int \<Rightarrow> int \<Rightarrow> store \<Rightarrow> (CafeResponse list) outcome" where
  "read_cafes skip limit db =
     (case sql_offset skip (select_Cafe db) of
        Inl e \<Rightarrow> (Inl e, db)
      | Inr rows \<Rightarrow>
          (case sql_limit limit rows of
             Inl e \<Rightarrow> (Inl e, db)
           | Inr cafes \<Rightarrow> (CafeResponse_list cafes, db)))"

definition random_cafe :: "nat \<Rightarrow> store \<Rightarrow> CafeResponse outcome" where
  "random_cafe r db =
     (let cafes = select_Cafe db in
      case choice r cafes of
        None \<Rightarrow> (Inl (HTTPException 404 ''No cafes available''), db)
      | Some random_cafe \<Rightarrow> (CafeResponse_validate random_cafe, db))"

definition all_cafe :: "store \<Rightarrow> (CafeResponse list) outcome" where
  "all_cafe db = (let cafes = select_Cafe db in (CafeResponse_list cafes, db))"

definition find_cafe :: "string \<Rightarrow> store \<Rightarrow> (CafeResponse list) outcome" where
  "find_cafe loc db =
     (let cafes = filter (\<lambda>c. location c = strip quotes loc) (select_Cafe db) in
      if cafes = []
      then (Inl (HTTPException 404 ''Sorry, we don't have a cafe at the location''), db)
      else (CafeResponse_list cafes, db))"

definition add_cafe :: "CafeCreate \<Rightarrow> store \<Rightarrow> CafeResponse outcome" where
  "add_cafe cafe db =
     (case insert_commit cafe db of
        Inl e \<Rightarrow> (Inl e, db)
      | Inr (new_cafe, db') \<Rightarrow> (CafeResponse_validate new_cafe, db'))"

definition update_price :: "int \<Rightarrow> string \<Rightarrow> store \<Rightarrow> CafeResponse outcome" where
  "update_price cafe_id new_price db =
     (case query_first cafe_id db of
        Inl e \<Rightarrow> (Inl e, db)
      | Inr None \<Rightarrow> (Inl (HTTPException 404 ''Cafe not found''), db)
      | Inr (Some cafe) \<Rightarrow>
          (CafeResponse_validate (cafe\<lparr>coffee_price := Some new_price\<rparr>),
           update_commit (id' cafe) new_price db))"

text \<open>\<open>response_model=dict\<close>: the dictionary the handler returns passes as it is.\<close>

definition delete_cafe :: "int \<Rightarrow> string \<Rightarrow> store \<Rightarrow> ((string \<times> string) list) outcome" where
  "delete_cafe cafe_id api_key db =
     (if api_key \<noteq> ''TopSecretAPIKey''
      then (Inl (HTTPException 403 ''Forbidden: Invalid API Key''), db)
      else case query_first cafe_id db of
        Inl e \<Rightarrow> (Inl e, db)
      | Inr None \<Rightarrow> (Inl (HTTPException 404 ''Cafe not found''), db)
      | Inr (Some cafe) \<Rightarrow>
          (Inr [(''success'', ''Successfully deleted the cafe from the database.'')],
           delete_commit (id' cafe) db))"

text \<open>
  The route \<open>POST /add\<close>: FastAPI validates the body against \<open>CafeCreate\<close> and calls the
  handler only with a body that passed.
\<close>

definition post_add :: "body \<Rightarrow> store \<Rightarrow> CafeResponse outcome" where
  "post_add b db =
     (case CafeCreate_validate b of
        Inl e \<Rightarrow> (Inl e, db)
      | Inr cafe \<Rightarrow> add_cafe cafe db)"

subsection \<open>The vocabulary of the properties\<close>

text \<open>
  A request fails with NotFound, Forbidden or Conflict when the handler raises an error that
  FastAPI answers with status 404, 403 or 409.
\<close>

definition raises :: "'a outcome \<Rightarrow> nat \<Rightarrow> bool" where
  "raises out code = (case fst out of Inl e \<Rightarrow> status_code e = code | Inr x \<Rightarrow> False)"

text \<open>A row with a price, as against one whose \<open>coffee_price\<close> is NULL.\<close>

definition priced :: "Cafe \<Rightarrow> bool" where
  "priced c = (coffee_price c \<noteq> None)"

subsection \<open>Example rows and requests\<close>

text \<open>A table of two rows, and request bodies, for the concrete checks below.\<close>

definition gallery :: Cafe where
  "gallery =
     \<lparr>id' = 1, name = ''Science Gallery'', map_url = ''https://maps.example/1'',
      img_url = ''https://img.example/1.jpg'', location = ''London Bridge'', seats = ''50+'',
      has_toilet = True, has_wifi = False, has_sockets = True, can_take_calls = False,
      coffee_price = Some ''2.40''\<rparr>"

definition social :: Cafe where
  "social =
     \<lparr>id' = 2, name = ''Social'', map_url = ''https://maps.example/2'',
      img_url = ''https://img.example/2.jpg'', location = ''Peckham'', seats = ''20-30'',
      has_toilet = True, has_wifi = True, has_sockets = False, can_take_calls = True,
      coffee_price = Some ''2.75''\<rparr>"

definition two_cafes :: store where
  "two_cafes = [gallery, social]"

text \<open>The two rows as the routes return them.\<close>

definition gallery_response :: CafeResponse where
  "gallery_response =
     \<lparr>CafeBase.name = ''Science Gallery'', CafeBase.map_url = ''https://maps.example/1'',
      CafeBase.img_url = ''https://img.example/1.jpg'', CafeBase.location = ''London Bridge'',
      CafeBase.seats = ''50+'', CafeBase.has_toilet = True, CafeBase.has_wifi = False,
      CafeBase.has_sockets = True, CafeBase.can_take_calls = False,
      CafeBase.coffee_price = ''2.40'', CafeResponse.id' = 1\<rparr>"

definition social_response :: CafeResponse where
  "social_response =
     \<lparr>CafeBase.name = ''Social'', CafeBase.map_url = ''https://maps.example/2'',
      CafeBase.img_url = ''https://img.example/2.jpg'', CafeBase.location = ''Peckham'',
      CafeBase.seats = ''20-30'', CafeBase.has_toilet = True, CafeBase.has_wifi = True,
      CafeBase.has_sockets = False, CafeBase.can_take_calls = True,
      CafeBase.coffee_price = ''2.75'', CafeResponse.id' = 2\<rparr>"



text \<open>
  A new cafe, and the record of it that Create returns when it is given the id 3; the same
  cafe with the name of a row of \<open>two_cafes\<close>; the same cafe in a quoted location.
\<close>

definition old_spike :: CafeCreate where
  "old_spike =
     \<lparr>CafeBase.name = ''Old Spike'', CafeBase.map_url = ''https://maps.example/3'',
      CafeBase.img_url = ''https://img.example/3.jpg'', CafeBase.location = ''Peckham'',
      CafeBase.seats = ''0-10'', CafeBase.has_toilet = False, CafeBase.has_wifi = True,
      CafeBase.has_sockets = True, CafeBase.can_take_calls = False,
      CafeBase.coffee_price = ''2.80''\<rparr>"


definition second_social :: CafeCreate where
  "second_social = old_spike\<lparr>CafeBase.name := ''Social''\<rparr>"


text \<open>The body of a request for \<open>old_spike\<close>, whole and without its \<open>coffee_price\<close>.\<close>

definition old_spike_body :: body where
  "old_spike_body =
     \<lparr>body.name = Some ''Old Spike'', body.map_url = Some ''https://maps.example/3'',
      body.img_url = Some ''https://img.example/3.jpg'', body.location = Some ''Peckham'',
      body.seats = Some ''0-10'', body.has_toilet = Some False, body.has_wifi = Some True,
      body.has_sockets = Some True, body.can_take_calls = Some False,
      body.coffee_price = Some ''2.80''\<rparr>"

definition unpriced_body :: body where
  "unpriced_body = old_spike_body\<lparr>body.coffee_price := None\<rparr>"

section \<open>Properties\<close>

subsection \<open>Auxiliary facts\<close>

lemma raises_Inl: "raises (Inl e, db) code \<longleftrightarrow> status_code e = code"
  by (simp add: raises_def)


lemma query_first_overflow: "\<not> sqlite_int i \<Longrightarrow> query_first i db = Inl OverflowError"
  by (simp add: query_first_def)

lemma query_first_None: "sqlite_int i \<Longrightarrow> query_first i db = Inr None \<longleftrightarrow> i \<notin> id' ` set db"
  by (auto simp: query_first_def find_None_iff)

lemma query_first_Some: "query_first i db = Inr (Some c) \<Longrightarrow> c \<in> set db \<and> id' c = i"
  by (auto simp: query_first_def find_Some_iff split: if_splits)

lemma query_first_cases:
  assumes "sqlite_int i"
  obtains "query_first i db = Inr None" | c where "query_first i db = Inr (Some c)"
  using assms by (cases "find (\<lambda>c. id' c = i) db") (auto simp: query_first_def)




lemma validate_fields:
  assumes "CafeResponse_validate c = Inr r"
  shows "CafeResponse.id' r = id' c" and "CafeBase.name r = name c"
    and "CafeBase.map_url r = map_url c" and "CafeBase.img_url r = img_url c"
    and "CafeBase.location r = location c" and "CafeBase.seats r = seats c"
    and "CafeBase.has_toilet r = has_toilet c" and "CafeBase.has_wifi r = has_wifi c"
    and "CafeBase.has_sockets r = has_sockets c"
    and "CafeBase.can_take_calls r = can_take_calls c"
    and "coffee_price c = Some (CafeBase.coffee_price r)"
  using assms by (auto simp: CafeResponse_validate_def split: option.splits)

lemma validate_inj:
  assumes "CafeResponse_validate c = Inr r" and "CafeResponse_validate c' = Inr r"
  shows "c = c'"
  using validate_fields [OF assms(1)] validate_fields [OF assms(2)] by simp


text \<open>
  A list passes when each of its rows does, and yields their records in order.
\<close>

lemma list_Inr_iff:
  "CafeResponse_list cafes = Inr rs \<longleftrightarrow>
   list_all2 (\<lambda>c r. CafeResponse_validate c = Inr r) cafes rs"
proof (induction cafes arbitrary: rs)
  case Nil
  then show ?case by auto
next
  case (Cons c cs)
  show ?case
    by (cases "CafeResponse_validate c"; cases "CafeResponse_list cs")
      (auto simp: list_all2_Cons1 Cons.IH [symmetric])
qed



lemma list_ids:
  "CafeResponse_list cafes = Inr rs \<Longrightarrow> map CafeResponse.id' rs = map id' cafes"
  unfolding list_Inr_iff
  by (induction rule: list_all2_induct) (simp_all add: validate_fields)



lemma read_cafes_window:
  "sqlite_int skip \<Longrightarrow> sqlite_int limit \<Longrightarrow> 0 \<le> limit \<Longrightarrow>
   read_cafes skip limit db = (CafeResponse_list (take (nat limit) (drop (nat skip) db)), db)"
  by (simp add: read_cafes_def sql_offset_def sql_limit_def select_Cafe_def)

lemma read_cafes_ids:
  assumes "fst (read_cafes skip limit db) = Inr rs"
  shows "CafeResponse.id' ` set rs \<subseteq> id' ` set db"
proof -
  from assms obtain cafes where c: "set cafes \<subseteq> set db" and l: "CafeResponse_list cafes = Inr rs"
    by (auto simp: read_cafes_def sql_offset_def sql_limit_def select_Cafe_def
        split: if_splits dest: in_set_takeD in_set_dropD)
  from l have "map CafeResponse.id' rs = map id' cafes" by (rule list_ids)
  then have "CafeResponse.id' ` set rs = id' ` set cafes" by (metis set_map)
  with c show ?thesis by blast
qed

lemma all_cafe_eq: "all_cafe db = (CafeResponse_list db, db)"
  by (simp add: all_cafe_def select_Cafe_def)

lemma all_cafe_ids:
  assumes "fst (all_cafe db) = Inr rs"
  shows "CafeResponse.id' ` set rs = id' ` set db"
proof -
  from assms have "map CafeResponse.id' rs = map id' db" by (simp add: all_cafe_eq list_ids)
  then show ?thesis by (metis set_map)
qed

lemma next_id_fresh: "next_id db \<notin> id' ` set db"
proof (cases "db = []")
  case True
  then show ?thesis by simp
next
  case False
  have "\<And>c. c \<in> set db \<Longrightarrow> id' c \<le> Max (set (map id' db))"
    by simp
  then have "\<And>c. c \<in> set db \<Longrightarrow> id' c < next_id db"
    using False by (fastforce simp: next_id_def)
  then show ?thesis by force
qed

lemma add_cafe_taken:
  "CafeBase.name cafe \<in> name ` set db \<Longrightarrow> add_cafe cafe db = (Inl IntegrityError, db)"
  by (simp add: add_cafe_def insert_commit_def)

lemma add_cafe_free:
  "CafeBase.name cafe \<notin> name ` set db \<Longrightarrow>
   add_cafe cafe db =
     (CafeResponse_validate (Cafe_of cafe (next_id db)), db @ [Cafe_of cafe (next_id db)])"
  by (simp add: add_cafe_def insert_commit_def Let_def)

text \<open>
  The constraints of the table hold after every write, and rows with a price stay rows
  with a price: a table the service has built from an empty one satisfies both.
\<close>

lemma add_cafe_keeps_constraints:
  assumes "primary_key db" and "unique_name db"
  shows "primary_key (snd (add_cafe cafe db)) \<and> unique_name (snd (add_cafe cafe db))"
proof (cases "CafeBase.name cafe \<in> name ` set db")
  case True
  with assms show ?thesis by (simp add: add_cafe_taken)
next
  case False
  have "id' (Cafe_of cafe (next_id db)) = next_id db"
    and "name (Cafe_of cafe (next_id db)) = CafeBase.name cafe"
    by (simp_all add: Cafe_of_def)
  with False assms next_id_fresh [of db] show ?thesis
    by (simp add: add_cafe_free primary_key_def unique_name_def)
qed

lemma update_commit_keeps_constraints:
  assumes "primary_key db" and "unique_name db"
  shows "primary_key (update_commit i p db) \<and> unique_name (update_commit i p db)"
proof -
  have "map id' (update_commit i p db) = map id' db"
    and "map name (update_commit i p db) = map name db"
    by (simp_all add: update_commit_def)
  with assms show ?thesis by (simp add: primary_key_def unique_name_def)
qed

lemma delete_commit_keeps_constraints:
  assumes "primary_key db" and "unique_name db"
  shows "primary_key (delete_commit i db) \<and> unique_name (delete_commit i db)"
  using assms by (simp add: primary_key_def unique_name_def delete_commit_def distinct_map_filter)

lemma writes_keep_priced:
  assumes "\<forall>c \<in> set db. priced c"
  shows "(\<forall>c \<in> set (snd (add_cafe cafe db)). priced c) \<and>
         (\<forall>c \<in> set (update_commit i p db). priced c) \<and>
         (\<forall>c \<in> set (delete_commit i db). priced c)"
proof -
  have "priced (Cafe_of cafe (next_id db))" by (simp add: priced_def Cafe_of_def)
  with assms have "\<forall>c \<in> set (snd (add_cafe cafe db)). priced c"
    by (cases "CafeBase.name cafe \<in> name ` set db") (simp_all add: add_cafe_taken add_cafe_free)
  moreover from assms have "\<forall>c \<in> set (update_commit i p db). priced c"
    by (auto simp: update_commit_def priced_def)
  moreover from assms have "\<forall>c \<in> set (delete_commit i db). priced c"
    by (simp add: delete_commit_def)
  ultimately show ?thesis by blast
qed

text \<open>
  The example rows and integers.
\<close>

lemma validate_gallery: "CafeResponse_validate gallery = Inr gallery_response"
  by (simp add: CafeResponse_validate_def gallery_def gallery_response_def)




lemma big_not_sqlite_int: "\<not> sqlite_int 9223372036854775808"
  by (simp add: sqlite_int_def)

lemma small_sqlite_int:
  "sqlite_int 0" "sqlite_int 1" "sqlite_int 2" "sqlite_int 5" "sqlite_int 7" "sqlite_int 10"
  by (simp_all add: sqlite_int_def)

subsection \<open>Reads leave the table alone\<close>

text \<open>
  C10: the read operations List, Random, All and Search never modify the store: for every
  input and every store state, the store after the operation, whether it succeeded or
  failed with NotFound, equals the store before.
\<close>

theorem reads_leave_store:
  "snd (read_cafes skip limit db) = db \<and>
   snd (random_cafe r db) = db \<and>
   snd (all_cafe db) = db \<and>
   snd (find_cafe loc db) = db"
  by (simp add: read_cafes_def random_cafe_def all_cafe_def find_cafe_def Let_def
      split: option.split sum.split)

subsection \<open>List\<close>





subsection \<open>Random\<close>




subsection \<open>Search\<close>








subsection \<open>Update price\<close>

lemma update_commit_length: "length (update_commit i p db) = length db"
  by (simp add: update_commit_def)

lemma update_commit_nth:
  "k < length db \<Longrightarrow>
   update_commit i p db ! k =
     (if id' (db ! k) = i then (db ! k)\<lparr>coffee_price := Some p\<rparr> else db ! k)"
  by (simp add: update_commit_def)

lemma validate_update:
  "\<exists>resp. CafeResponse_validate (c\<lparr>coffee_price := Some p\<rparr>) = Inr resp \<and>
     CafeBase.coffee_price resp = p \<and> CafeResponse.id' resp = id' c"
  by (simp add: CafeResponse_validate_def)

lemma update_price_overflow:
  "\<not> sqlite_int cafe_id \<Longrightarrow> update_price cafe_id new_price db = (Inl OverflowError, db)"
  by (simp add: update_price_def query_first_overflow)

text \<open>
  C2, as the code has it: for every \<open>cafe_id\<close> the driver can bind (a signed 64-bit
  integer) and every \<open>new_price\<close>: when a row has the id, Update-price returns the record
  of that row with \<open>coffee_price\<close> set to \<open>new_price\<close> and every other field as it was,
  and the table afterwards has the same rows in the same places but for the price of the
  row with that id; when no row has the id, it fails with NotFound and the table is
  unchanged. For a \<open>cafe_id\<close> the driver cannot bind, the lookup raises \<open>OverflowError\<close>
  (status 500) and the table is unchanged.
\<close>

theorem update_price_spec:
  "(sqlite_int cafe_id \<and> cafe_id \<in> id' ` set db \<longrightarrow>
      (\<exists>cafe resp. cafe \<in> set db \<and> id' cafe = cafe_id \<and>
         CafeResponse_validate (cafe\<lparr>coffee_price := Some new_price\<rparr>) = Inr resp \<and>
         fst (update_price cafe_id new_price db) = Inr resp \<and>
         CafeBase.coffee_price resp = new_price \<and>
         cafe\<lparr>coffee_price := Some new_price\<rparr> \<in> set (snd (update_price cafe_id new_price db))) \<and>
      length (snd (update_price cafe_id new_price db)) = length db \<and>
      (\<forall>k < length db.
         snd (update_price cafe_id new_price db) ! k =
           (if id' (db ! k) = cafe_id then (db ! k)\<lparr>coffee_price := Some new_price\<rparr>
            else db ! k))) \<and>
   (sqlite_int cafe_id \<and> cafe_id \<notin> id' ` set db \<longrightarrow>
      raises (update_price cafe_id new_price db) 404 \<and>
      snd (update_price cafe_id new_price db) = db) \<and>
   (\<not> sqlite_int cafe_id \<longrightarrow>
      update_price cafe_id new_price db = (Inl OverflowError, db))"
proof (cases "sqlite_int cafe_id")
  case False
  then show ?thesis by (simp add: update_price_overflow)
next
  case range: True
  then show ?thesis
  proof (cases rule: query_first_cases [where db = db])
    case 1
    with range have "cafe_id \<notin> id' ` set db" by (simp add: query_first_None)
    moreover from 1 have "update_price cafe_id new_price db =
        (Inl (HTTPException 404 ''Cafe not found''), db)"
      by (simp add: update_price_def)
    ultimately show ?thesis using range by (simp add: raises_Inl)
  next
    case (2 cafe)
    then have c: "cafe \<in> set db" "id' cafe = cafe_id" by (simp_all add: query_first_Some)
    then have m: "cafe_id \<in> id' ` set db" by blast
    from validate_update [where c = cafe and p = new_price] obtain resp
      where v: "CafeResponse_validate (cafe\<lparr>coffee_price := Some new_price\<rparr>) = Inr resp"
        and p: "CafeBase.coffee_price resp = new_price" by blast
    from 2 c v have u: "update_price cafe_id new_price db =
        (Inr resp, update_commit cafe_id new_price db)"
      by (simp add: update_price_def)
    from c have i: "cafe\<lparr>coffee_price := Some new_price\<rparr> \<in> set (update_commit cafe_id new_price db)"
      by (force simp: update_commit_def)
    from c v p u i have "\<exists>cafe resp. cafe \<in> set db \<and> id' cafe = cafe_id \<and>
         CafeResponse_validate (cafe\<lparr>coffee_price := Some new_price\<rparr>) = Inr resp \<and>
         fst (update_price cafe_id new_price db) = Inr resp \<and>
         CafeBase.coffee_price resp = new_price \<and>
         cafe\<lparr>coffee_price := Some new_price\<rparr> \<in> set (snd (update_price cafe_id new_price db))"
      by auto
    with range m u show ?thesis
      by (simp add: update_commit_length update_commit_nth)
  qed
qed

text \<open>
  Repricing row 2 of the two-row table, a request for the missing row 7, and one for
  the id \<open>2^63\<close>.
\<close>

theorem update_price_spec_witness:
  "sqlite_int 2 \<and> (2::int) \<in> id' ` set two_cafes \<and>
   update_price 2 ''3.10'' two_cafes =
     (Inr (social_response\<lparr>CafeBase.coffee_price := ''3.10''\<rparr>),
      [gallery, social\<lparr>coffee_price := Some ''3.10''\<rparr>]) \<and>
   sqlite_int 7 \<and> (7::int) \<notin> id' ` set two_cafes \<and>
   raises (update_price 7 ''3.10'' two_cafes) 404 \<and>
   snd (update_price 7 ''3.10'' two_cafes) = two_cafes \<and>
   \<not> sqlite_int 9223372036854775808 \<and>
   update_price 9223372036854775808 ''3.10'' two_cafes = (Inl OverflowError, two_cafes)"
proof -
  have i: "id' gallery = 1" "id' social = 2" by (simp_all add: gallery_def social_def)
  have a: "(2::int) \<in> id' ` set two_cafes" by (simp add: two_cafes_def i)
  have b: "(7::int) \<notin> id' ` set two_cafes" by (simp add: two_cafes_def i)
  have v: "CafeResponse_validate (social\<lparr>coffee_price := Some ''3.10''\<rparr>) =
      Inr (social_response\<lparr>CafeBase.coffee_price := ''3.10''\<rparr>)"
    by (simp add: CafeResponse_validate_def social_def social_response_def)
  have u: "update_price 2 ''3.10'' two_cafes =
     (Inr (social_response\<lparr>CafeBase.coffee_price := ''3.10''\<rparr>),
      [gallery, social\<lparr>coffee_price := Some ''3.10''\<rparr>])"
    by (simp add: update_price_def query_first_def small_sqlite_int update_commit_def
        two_cafes_def i v)
  from update_price_spec [of 2 two_cafes "''3.10''"] update_price_spec [of 7 two_cafes "''3.10''"]
    update_price_spec [of 9223372036854775808 two_cafes "''3.10''"]
    a b u small_sqlite_int big_not_sqlite_int
  show ?thesis by blast
qed

text \<open>
  C2 as the specification states it fails for the id \<open>2^63\<close>, which no row has: the
  result is not NotFound.
\<close>

theorem update_price_counterexample:
  "(9223372036854775808::int) \<notin> id' ` set two_cafes \<and>
   update_price 9223372036854775808 ''3.10'' two_cafes = (Inl OverflowError, two_cafes) \<and>
   status_code OverflowError = 500 \<and>
   \<not> raises (update_price 9223372036854775808 ''3.10'' two_cafes) 404"
proof -
  have "(9223372036854775808::int) \<notin> id' ` set two_cafes"
    by (simp add: two_cafes_def gallery_def social_def)
  moreover have "update_price 9223372036854775808 ''3.10'' two_cafes =
      (Inl OverflowError, two_cafes)"
    using big_not_sqlite_int by (rule update_price_overflow)
  ultimately show ?thesis by (simp add: raises_Inl)
qed

subsection \<open>Delete\<close>

lemma delete_commit_ids: "i \<notin> id' ` set (delete_commit i db)"
  by (auto simp: delete_commit_def)

lemma delete_cafe_overflow:
  "\<not> sqlite_int cafe_id \<Longrightarrow>
   delete_cafe cafe_id ''TopSecretAPIKey'' db = (Inl OverflowError, db)"
  by (simp add: delete_cafe_def query_first_overflow)

text \<open>
  C4, as the code has it: with a wrong \<open>api_key\<close> Delete fails with Forbidden and the
  table is unchanged; with the right key and an id that the driver can bind and some row
  has, it returns the success acknowledgment, the table afterwards is the table without
  the row of that id, and no later List (for any \<open>skip\<close> and \<open>limit\<close>) or All returns a
  record of that id; with the right key and an id that the driver can bind and no row
  has, it fails with NotFound and the table is unchanged; with the right key and an id
  the driver cannot bind, the lookup raises \<open>OverflowError\<close> (status 500) and the table
  is unchanged.
\<close>

theorem delete_cafe_spec:
  "(api_key \<noteq> ''TopSecretAPIKey'' \<longrightarrow>
      raises (delete_cafe cafe_id api_key db) 403 \<and>
      snd (delete_cafe cafe_id api_key db) = db) \<and>
   (api_key = ''TopSecretAPIKey'' \<and> sqlite_int cafe_id \<and> cafe_id \<in> id' ` set db \<longrightarrow>
      fst (delete_cafe cafe_id api_key db) =
        Inr [(''success'', ''Successfully deleted the cafe from the database.'')] \<and>
      snd (delete_cafe cafe_id api_key db) = filter (\<lambda>c. id' c \<noteq> cafe_id) db \<and>
      (\<forall>skip limit rs.
         fst (read_cafes skip limit (snd (delete_cafe cafe_id api_key db))) = Inr rs \<longrightarrow>
         cafe_id \<notin> CafeResponse.id' ` set rs) \<and>
      (\<forall>rs.
         fst (all_cafe (snd (delete_cafe cafe_id api_key db))) = Inr rs \<longrightarrow>
         cafe_id \<notin> CafeResponse.id' ` set rs)) \<and>
   (api_key = ''TopSecretAPIKey'' \<and> sqlite_int cafe_id \<and> cafe_id \<notin> id' ` set db \<longrightarrow>
      raises (delete_cafe cafe_id api_key db) 404 \<and>
      snd (delete_cafe cafe_id api_key db) = db) \<and>
   (api_key = ''TopSecretAPIKey'' \<and> \<not> sqlite_int cafe_id \<longrightarrow>
      delete_cafe cafe_id api_key db = (Inl OverflowError, db))"
proof (cases "api_key = ''TopSecretAPIKey''")
  case False
  then show ?thesis by (simp add: delete_cafe_def raises_Inl)
next
  case key: True
  show ?thesis
  proof (cases "sqlite_int cafe_id")
    case False
    with key show ?thesis by (simp add: delete_cafe_overflow)
  next
    case range: True
    then show ?thesis
    proof (cases rule: query_first_cases [where db = db])
      case 1
      with range have "cafe_id \<notin> id' ` set db" by (simp add: query_first_None)
      with key range 1 show ?thesis by (simp add: delete_cafe_def raises_Inl)
    next
      case (2 cafe)
      then have c: "cafe \<in> set db" "id' cafe = cafe_id" by (simp_all add: query_first_Some)
      then have m: "cafe_id \<in> id' ` set db" by blast
      from key 2 c have d: "delete_cafe cafe_id api_key db =
          (Inr [(''success'', ''Successfully deleted the cafe from the database.'')],
           delete_commit cafe_id db)"
        by (simp add: delete_cafe_def)
      have gone: "cafe_id \<notin> id' ` set (delete_commit cafe_id db)" by (rule delete_commit_ids)
      have "\<forall>skip limit rs.
          fst (read_cafes skip limit (delete_commit cafe_id db)) = Inr rs \<longrightarrow>
          cafe_id \<notin> CafeResponse.id' ` set rs"
        using gone read_cafes_ids by blast
      moreover have "\<forall>rs. fst (all_cafe (delete_commit cafe_id db)) = Inr rs \<longrightarrow>
          cafe_id \<notin> CafeResponse.id' ` set rs"
        using gone all_cafe_ids by blast
      ultimately show ?thesis using key range m d by (simp add: delete_commit_def)
    qed
  qed
qed

text \<open>
  On the two-row table: a wrong key, the right key for row 2, for the missing row 7 and
  for the id \<open>2^63\<close>.
\<close>

theorem delete_cafe_spec_witness:
  "''letmein'' \<noteq> ''TopSecretAPIKey'' \<and>
   raises (delete_cafe 2 ''letmein'' two_cafes) 403 \<and>
   snd (delete_cafe 2 ''letmein'' two_cafes) = two_cafes \<and>
   sqlite_int 2 \<and> (2::int) \<in> id' ` set two_cafes \<and>
   delete_cafe 2 ''TopSecretAPIKey'' two_cafes =
     (Inr [(''success'', ''Successfully deleted the cafe from the database.'')], [gallery]) \<and>
   fst (read_cafes 0 10 [gallery]) = Inr [gallery_response] \<and>
   fst (all_cafe [gallery]) = Inr [gallery_response] \<and>
   (2::int) \<notin> CafeResponse.id' ` set [gallery_response] \<and>
   sqlite_int 7 \<and> (7::int) \<notin> id' ` set two_cafes \<and>
   raises (delete_cafe 7 ''TopSecretAPIKey'' two_cafes) 404 \<and>
   snd (delete_cafe 7 ''TopSecretAPIKey'' two_cafes) = two_cafes \<and>
   \<not> sqlite_int 9223372036854775808 \<and>
   delete_cafe 9223372036854775808 ''TopSecretAPIKey'' two_cafes =
     (Inl OverflowError, two_cafes)"
proof -
  have i: "id' gallery = 1" "id' social = 2" by (simp_all add: gallery_def social_def)
  have k: "''letmein'' \<noteq> ''TopSecretAPIKey''" by simp
  have a: "(2::int) \<in> id' ` set two_cafes" by (simp add: two_cafes_def i)
  have b: "(7::int) \<notin> id' ` set two_cafes" by (simp add: two_cafes_def i)
  have f: "filter (\<lambda>c. id' c \<noteq> 2) two_cafes = [gallery]" by (simp add: two_cafes_def i)
  have r: "fst (read_cafes 0 10 [gallery]) = Inr [gallery_response]"
    by (simp add: read_cafes_window small_sqlite_int validate_gallery)
  have l: "fst (all_cafe [gallery]) = Inr [gallery_response]"
    by (simp add: all_cafe_eq validate_gallery)
  from delete_cafe_spec [of "''letmein''" 2 two_cafes] k
  have 1: "raises (delete_cafe 2 ''letmein'' two_cafes) 403"
    "snd (delete_cafe 2 ''letmein'' two_cafes) = two_cafes" by blast+
  from delete_cafe_spec [of "''TopSecretAPIKey''" 2 two_cafes] a f small_sqlite_int
  have 2: "delete_cafe 2 ''TopSecretAPIKey'' two_cafes =
     (Inr [(''success'', ''Successfully deleted the cafe from the database.'')], [gallery])"
    by (simp add: prod_eq_iff)
  with delete_cafe_spec [of "''TopSecretAPIKey''" 2 two_cafes] a l small_sqlite_int
  have 3: "(2::int) \<notin> CafeResponse.id' ` set [gallery_response]" by simp
  from delete_cafe_spec [of "''TopSecretAPIKey''" 7 two_cafes] b small_sqlite_int
  have 4: "raises (delete_cafe 7 ''TopSecretAPIKey'' two_cafes) 404"
    "snd (delete_cafe 7 ''TopSecretAPIKey'' two_cafes) = two_cafes" by blast+
  from delete_cafe_spec [of "''TopSecretAPIKey''" 9223372036854775808 two_cafes]
    big_not_sqlite_int
  have 5: "delete_cafe 9223372036854775808 ''TopSecretAPIKey'' two_cafes =
     (Inl OverflowError, two_cafes)" by blast
  from k a b r l 1 2 3 4 5 small_sqlite_int big_not_sqlite_int show ?thesis by blast
qed

text \<open>
  C4 as the specification states it fails for the right key and the id \<open>2^63\<close>, which
  no row has: the result is not NotFound.
\<close>

theorem delete_cafe_counterexample:
  "(9223372036854775808::int) \<notin> id' ` set two_cafes \<and>
   delete_cafe 9223372036854775808 ''TopSecretAPIKey'' two_cafes =
     (Inl OverflowError, two_cafes) \<and>
   status_code OverflowError = 500 \<and>
   \<not> raises (delete_cafe 9223372036854775808 ''TopSecretAPIKey'' two_cafes) 404"
proof -
  have "(9223372036854775808::int) \<notin> id' ` set two_cafes"
    by (simp add: two_cafes_def gallery_def social_def)
  moreover have "delete_cafe 9223372036854775808 ''TopSecretAPIKey'' two_cafes =
      (Inl OverflowError, two_cafes)"
    using big_not_sqlite_int by (rule delete_cafe_overflow)
  ultimately show ?thesis by (simp add: raises_Inl)
qed

text \<open>
  C9: Delete checks the key before it looks for the row: with a wrong \<open>api_key\<close> the
  result is Forbidden whether or not a row has the id, never NotFound, and the table is
  unchanged.
\<close>

theorem delete_wrong_key:
  assumes "api_key \<noteq> ''TopSecretAPIKey''"
  shows "delete_cafe cafe_id api_key db =
           (Inl (HTTPException 403 ''Forbidden: Invalid API Key''), db) \<and>
         raises (delete_cafe cafe_id api_key db) 403 \<and>
         \<not> raises (delete_cafe cafe_id api_key db) 404"
  using assms by (simp add: delete_cafe_def raises_Inl)

text \<open>
  A wrong key with an id no row has: Forbidden.
\<close>

theorem delete_wrong_key_witness:
  "''letmein'' \<noteq> ''TopSecretAPIKey'' \<and> query_first 7 two_cafes = Inr None \<and>
   delete_cafe 7 ''letmein'' two_cafes =
     (Inl (HTTPException 403 ''Forbidden: Invalid API Key''), two_cafes) \<and>
   raises (delete_cafe 7 ''letmein'' two_cafes) 403 \<and>
   \<not> raises (delete_cafe 7 ''letmein'' two_cafes) 404"
proof -
  have k: "''letmein'' \<noteq> ''TopSecretAPIKey''" by simp
  have q: "query_first 7 two_cafes = Inr None"
    by (simp add: query_first_def sqlite_int_def two_cafes_def gallery_def social_def)
  from delete_wrong_key [OF k, of 7 two_cafes] k q show ?thesis by blast
qed

subsection \<open>Create\<close>

text \<open>
  C1, as the code has it: for every Create request whose \<open>name\<close> is the name of a row in
  the table, the INSERT raises \<open>IntegrityError\<close>; no handler catches it, so the caller is
  answered with status 500, a server error and not a client error; the table is unchanged.
\<close>

theorem add_cafe_duplicate_name:
  assumes "CafeBase.name cafe \<in> name ` set db"
  shows "add_cafe cafe db = (Inl IntegrityError, db) \<and>
         raises (add_cafe cafe db) 500 \<and>
         \<not> client_error IntegrityError"
  using assms by (simp add: add_cafe_taken raises_Inl client_error_def)

text \<open>
  A second cafe named Social.
\<close>

theorem add_cafe_duplicate_name_witness:
  "CafeBase.name second_social \<in> name ` set two_cafes \<and>
   add_cafe second_social two_cafes = (Inl IntegrityError, two_cafes) \<and>
   raises (add_cafe second_social two_cafes) 500"
proof -
  have "CafeBase.name second_social \<in> name ` set two_cafes"
    by (simp add: second_social_def two_cafes_def social_def)
  from this add_cafe_duplicate_name [OF this] show ?thesis by blast
qed

text \<open>
  C1 as the specification states it fails there: the error is not a Conflict (409) and
  not a client error.
\<close>

theorem add_cafe_duplicate_name_counterexample:
  "CafeBase.name second_social \<in> name ` set two_cafes \<and>
   fst (add_cafe second_social two_cafes) = Inl IntegrityError \<and>
   status_code IntegrityError = 500 \<and>
   \<not> client_error IntegrityError \<and>
   \<not> raises (add_cafe second_social two_cafes) 409"
proof -
  have "CafeBase.name second_social \<in> name ` set two_cafes"
    by (simp add: second_social_def two_cafes_def social_def)
  then show ?thesis by (simp add: add_cafe_taken raises_Inl client_error_def)
qed

lemma absent_Nil: "absent field v = [] \<longleftrightarrow> v \<noteq> None"
  by (simp add: absent_def split: option.split)

lemma missing_fields_Nil:
  "missing_fields b = [] \<longleftrightarrow>
     body.name b \<noteq> None \<and> body.map_url b \<noteq> None \<and> body.img_url b \<noteq> None \<and>
     body.location b \<noteq> None \<and> body.seats b \<noteq> None \<and> body.has_toilet b \<noteq> None \<and>
     body.has_wifi b \<noteq> None \<and> body.has_sockets b \<noteq> None \<and>
     body.can_take_calls b \<noteq> None \<and> body.coffee_price b \<noteq> None"
  by (simp add: missing_fields_def absent_Nil)

lemma missing_coffee_price:
  "body.coffee_price b = None \<Longrightarrow> ''coffee_price'' \<in> set (missing_fields b)"
  by (simp add: missing_fields_def absent_def)

lemma post_add_missing:
  "missing_fields b \<noteq> [] \<Longrightarrow>
   post_add b db = (Inl (RequestValidationError (missing_fields b)), db)"
  by (simp add: post_add_def CafeCreate_validate_def)

lemma old_spike_body_valid: "CafeCreate_validate old_spike_body = Inr old_spike"
  by (simp add: CafeCreate_validate_def missing_fields_def absent_def old_spike_body_def
      old_spike_def)

text \<open>
  C7, as the code has it: \<open>coffee_price\<close> is required. A body in which all ten fields are
  present, \<open>coffee_price\<close> among them, passes validation and reaches the handler with the
  values it carries; a body without \<open>coffee_price\<close> is rejected with a validation error
  (status 422) that names the field, the handler is not called and the table is unchanged.
\<close>

theorem create_requires_coffee_price:
  "(body.name b \<noteq> None \<and> body.map_url b \<noteq> None \<and> body.img_url b \<noteq> None \<and>
    body.location b \<noteq> None \<and> body.seats b \<noteq> None \<and> body.has_toilet b \<noteq> None \<and>
    body.has_wifi b \<noteq> None \<and> body.has_sockets b \<noteq> None \<and>
    body.can_take_calls b \<noteq> None \<and> body.coffee_price b \<noteq> None \<longrightarrow>
      (\<exists>cafe. CafeCreate_validate b = Inr cafe \<and> post_add b db = add_cafe cafe db \<and>
         body.name b = Some (CafeBase.name cafe) \<and>
         body.map_url b = Some (CafeBase.map_url cafe) \<and>
         body.img_url b = Some (CafeBase.img_url cafe) \<and>
         body.location b = Some (CafeBase.location cafe) \<and>
         body.seats b = Some (CafeBase.seats cafe) \<and>
         body.has_toilet b = Some (CafeBase.has_toilet cafe) \<and>
         body.has_wifi b = Some (CafeBase.has_wifi cafe) \<and>
         body.has_sockets b = Some (CafeBase.has_sockets cafe) \<and>
         body.can_take_calls b = Some (CafeBase.can_take_calls cafe) \<and>
         body.coffee_price b = Some (CafeBase.coffee_price cafe))) \<and>
   (body.coffee_price b = None \<longrightarrow>
      (\<exists>missing. post_add b db = (Inl (RequestValidationError missing), db) \<and>
         ''coffee_price'' \<in> set missing) \<and>
      raises (post_add b db) 422)"
proof (intro conjI impI)
  assume all: "body.name b \<noteq> None \<and> body.map_url b \<noteq> None \<and> body.img_url b \<noteq> None \<and>
    body.location b \<noteq> None \<and> body.seats b \<noteq> None \<and> body.has_toilet b \<noteq> None \<and>
    body.has_wifi b \<noteq> None \<and> body.has_sockets b \<noteq> None \<and>
    body.can_take_calls b \<noteq> None \<and> body.coffee_price b \<noteq> None"
  then have m: "missing_fields b = []" by (simp add: missing_fields_Nil)
  let ?cafe = "\<lparr>CafeBase.name = the (body.name b),
                CafeBase.map_url = the (body.map_url b),
                CafeBase.img_url = the (body.img_url b),
                CafeBase.location = the (body.location b),
                CafeBase.seats = the (body.seats b),
                CafeBase.has_toilet = the (body.has_toilet b),
                CafeBase.has_wifi = the (body.has_wifi b),
                CafeBase.has_sockets = the (body.has_sockets b),
                CafeBase.can_take_calls = the (body.can_take_calls b),
                CafeBase.coffee_price = the (body.coffee_price b)\<rparr>"
  from m have v: "CafeCreate_validate b = Inr ?cafe" by (simp add: CafeCreate_validate_def)
  then have p: "post_add b db = add_cafe ?cafe db" by (simp add: post_add_def)
  from all have "body.name b = Some (CafeBase.name ?cafe)"
    "body.map_url b = Some (CafeBase.map_url ?cafe)"
    "body.img_url b = Some (CafeBase.img_url ?cafe)"
    "body.location b = Some (CafeBase.location ?cafe)"
    "body.seats b = Some (CafeBase.seats ?cafe)"
    "body.has_toilet b = Some (CafeBase.has_toilet ?cafe)"
    "body.has_wifi b = Some (CafeBase.has_wifi ?cafe)"
    "body.has_sockets b = Some (CafeBase.has_sockets ?cafe)"
    "body.can_take_calls b = Some (CafeBase.can_take_calls ?cafe)"
    "body.coffee_price b = Some (CafeBase.coffee_price ?cafe)"
    by simp_all
  with v p show "\<exists>cafe. CafeCreate_validate b = Inr cafe \<and> post_add b db = add_cafe cafe db \<and>
         body.name b = Some (CafeBase.name cafe) \<and>
         body.map_url b = Some (CafeBase.map_url cafe) \<and>
         body.img_url b = Some (CafeBase.img_url cafe) \<and>
         body.location b = Some (CafeBase.location cafe) \<and>
         body.seats b = Some (CafeBase.seats cafe) \<and>
         body.has_toilet b = Some (CafeBase.has_toilet cafe) \<and>
         body.has_wifi b = Some (CafeBase.has_wifi cafe) \<and>
         body.has_sockets b = Some (CafeBase.has_sockets cafe) \<and>
         body.can_take_calls b = Some (CafeBase.can_take_calls cafe) \<and>
         body.coffee_price b = Some (CafeBase.coffee_price cafe)"
    by blast
next
  assume n: "body.coffee_price b = None"
  then have c: "''coffee_price'' \<in> set (missing_fields b)" by (rule missing_coffee_price)
  then have "missing_fields b \<noteq> []" by auto
  then have p: "post_add b db = (Inl (RequestValidationError (missing_fields b)), db)"
    by (rule post_add_missing)
  with c show "\<exists>missing. post_add b db = (Inl (RequestValidationError missing), db) \<and>
         ''coffee_price'' \<in> set missing" by blast
  from p show "raises (post_add b db) 422" by (simp add: raises_Inl)
qed

text \<open>
  The whole body of a request, and the same body without its price.
\<close>

theorem create_requires_coffee_price_witness:
  "CafeCreate_validate old_spike_body = Inr old_spike \<and>
   post_add old_spike_body two_cafes = add_cafe old_spike two_cafes \<and>
   body.coffee_price unpriced_body = None \<and>
   raises (post_add unpriced_body two_cafes) 422"
proof -
  have all: "body.name old_spike_body \<noteq> None \<and> body.map_url old_spike_body \<noteq> None \<and>
    body.img_url old_spike_body \<noteq> None \<and> body.location old_spike_body \<noteq> None \<and>
    body.seats old_spike_body \<noteq> None \<and> body.has_toilet old_spike_body \<noteq> None \<and>
    body.has_wifi old_spike_body \<noteq> None \<and> body.has_sockets old_spike_body \<noteq> None \<and>
    body.can_take_calls old_spike_body \<noteq> None \<and> body.coffee_price old_spike_body \<noteq> None"
    by (simp add: old_spike_body_def)
  have n: "body.coffee_price unpriced_body = None" by (simp add: unpriced_body_def)
  from create_requires_coffee_price [of old_spike_body two_cafes] all old_spike_body_valid
  have 1: "post_add old_spike_body two_cafes = add_cafe old_spike two_cafes" by auto
  from create_requires_coffee_price [of unpriced_body two_cafes] n
  have 2: "raises (post_add unpriced_body two_cafes) 422" by blast
  from 1 2 n old_spike_body_valid show ?thesis by blast
qed

text \<open>
  C7 as the specification states it fails on a body with the nine other fields and no
  \<open>coffee_price\<close>: Create does not accept it.
\<close>

theorem create_without_price_counterexample:
  "missing_fields unpriced_body = [''coffee_price''] \<and>
   post_add unpriced_body two_cafes =
     (Inl (RequestValidationError [''coffee_price'']), two_cafes) \<and>
   raises (post_add unpriced_body two_cafes) 422"
proof -
  have m: "missing_fields unpriced_body = [''coffee_price'']"
    by (simp add: missing_fields_def absent_def unpriced_body_def old_spike_body_def)
  then have "post_add unpriced_body two_cafes =
     (Inl (RequestValidationError [''coffee_price'']), two_cafes)"
    by (simp add: post_add_def CafeCreate_validate_def)
  with m show ?thesis by (simp add: raises_Inl)
qed









end
